theory Spec2Isabelle
  imports Complex_Main
begin

section \<open>Data model\<close>

text \<open>
  The interfaces of the types module. JavaScript numbers that hold counts and scores are
  modelled as unbounded \<open>int\<close>: the handlers only add small non-negative integers to them,
  which is exact on doubles below \<open>2^53\<close>. A \<open>Date\<close> is the instant it denotes, in
  milliseconds, as an \<open>int\<close>. The \<open>details\<close> payload is never inspected by the routes
  and is kept as an opaque string.

  The four violation counters occur with the same field names in the local
  \<open>eventCounts\<close> object of the events route, in the \<open>sessionStats\<close> of the monitor
  component and in \<open>ProctorSession\<close>; they are one base record that the session record
  extends, so that one scoring function applies to all three.
\<close>

datatype session_status = Active | Completed

record DetectionEvent =
  event_id :: "string option"
  event_sessionId :: string
  eventType :: string
  confidence :: real
  timestamp :: int
  details :: string

record eventCounts =
  lookingAwayCount :: int
  noFaceCount :: int
  multipleFaceCount :: int
  unauthorizedObjectCount :: int

record ProctorSession = eventCounts +
  sessionId :: string
  candidateName :: string
  startTime :: int
  endTime :: "int option"
  duration :: int
  totalEvents :: int
  integrityScore :: int
  status :: session_status
  events :: "DetectionEvent list"

text \<open>
  The store: the two collections the routes use. A collection is the list of its
  documents in insertion order; nothing in the source declares a unique index, so a list
  may hold several sessions with one \<open>sessionId\<close>.
\<close>

record database =
  sessions_collection :: "ProctorSession list"
  events_collection :: "DetectionEvent list"

text \<open>
  A handler's JSON response: the success payload, or the HTTP status and the \<open>error\<close>
  string of a failure response. The \<open>catch\<close> branches (status 500) answer an
  exception. The store is taken to be reachable and the body to be JSON, so the one
  exception that remains is the events route reading a field of a null array element.
\<close>

datatype 'a response = Success 'a | Failure nat string

section \<open>Store primitives\<close>

definition findOne :: "('a \<Rightarrow> bool) \<Rightarrow> 'a list \<Rightarrow> 'a option" where
  "findOne p docs = find p docs"

fun updateOne :: "('a \<Rightarrow> bool) \<Rightarrow> ('a \<Rightarrow> 'a) \<Rightarrow> 'a list \<Rightarrow> 'a list" where
  "updateOne p f [] = []"
| "updateOne p f (d # docs) = (if p d then f d # docs else d # updateOne p f docs)"

definition matchedCount :: "('a \<Rightarrow> bool) \<Rightarrow> 'a list \<Rightarrow> nat" where
  "matchedCount p docs = (if list_ex p docs then 1 else 0)"

definition insertMany :: "'a list \<Rightarrow> 'a list \<Rightarrow> 'a list" where
  "insertMany new docs = docs @ new"

definition insertOne :: "'a \<Rightarrow> 'a list \<Rightarrow> 'a list" where
  "insertOne d docs = docs @ [d]"

section \<open>Scoring\<close>

definition baseScore :: int where
  "baseScore = 100"

definition deductions :: "'a eventCounts_scheme \<Rightarrow> int" where
  "deductions c =
     lookingAwayCount c * 2 + noFaceCount c * 3 +
     multipleFaceCount c * 10 + unauthorizedObjectCount c * 15"

text \<open>\<open>calculateIntegrityScore\<close> of the monitor component, over its \<open>sessionStats\<close>.\<close>

definition calculateIntegrityScore :: "'a eventCounts_scheme \<Rightarrow> int" where
  "calculateIntegrityScore sessionStats = max 0 (baseScore - deductions sessionStats)"

section \<open>Session creation: POST /api/sessions, creation branch\<close>

text \<open>
  A string is the list of its code units, each below 256. Of the characters that
  JavaScript's \<open>trim\<close> strips, these seven are the ones below 256: tab, line feed,
  vertical tab, form feed, carriage return, space and no-break space.
\<close>

definition whitespace :: "char \<Rightarrow> bool" where
  "whitespace c =
     (c \<in> set [CHR '' '', CHR 0x09, CHR 0x0A, CHR 0x0B, CHR 0x0C, CHR 0x0D, CHR 0xA0])"

definition trim :: "string \<Rightarrow> string" where
  "trim s = rev (dropWhile whitespace (rev (dropWhile whitespace s)))"

text \<open>The \<open>session\<close> object literal of the creation branch.\<close>

definition new_session :: "string \<Rightarrow> string \<Rightarrow> int \<Rightarrow> ProctorSession" where
  "new_session sid name now =
     \<lparr> lookingAwayCount = 0, noFaceCount = 0, multipleFaceCount = 0,
       unauthorizedObjectCount = 0,
       sessionId = sid, candidateName = trim name, startTime = now, endTime = None,
       duration = 0, totalEvents = 0, integrityScore = 100, status = Active,
       events = [] \<rparr>"

text \<open>
  The branch taken when the request body is a JSON string, the candidate name. The
  generated identifier (clock and random suffix) and the clock reading are inputs. The
  branch that saves a complete session is not part of this development.
\<close>

definition POST_sessions :: "string \<Rightarrow> int \<Rightarrow> string \<Rightarrow> database \<Rightarrow> string response \<times> database" where
  "POST_sessions sid now name db =
     (if trim name = [] then (Failure 400 ''Candidate name is required'', db)
      else (Success sid,
            db\<lparr>sessions_collection := insertOne (new_session sid name now) (sessions_collection db)\<rparr>))"

section \<open>Event ingestion: POST /api/sessions/[sessionId]/events\<close>

text \<open>
  The parsed request body: an array, or any other JSON value. An element of the array is
  null or an object with the fields of the declared element type; \<open>eventType\<close> is any
  string and \<open>confidence\<close> any number, since the declaration is not checked at run
  time.
\<close>

datatype json_element = Null_element | Event_object DetectionEvent

datatype body = Not_array | Array "json_element list"

text \<open>
  The stamping \<open>map\<close> reads \<open>event.timestamp\<close> of every element, which throws a
  TypeError on null: the map completes, with the objects of the array, exactly when no
  element is null.
\<close>

fun event_object :: "json_element \<Rightarrow> DetectionEvent option" where
  "event_object Null_element = None"
| "event_object (Event_object event) = Some event"

definition event_objects :: "json_element list \<Rightarrow> DetectionEvent list option" where
  "event_objects elements = those (map event_object elements)"

text \<open>
  The \<open>map\<close> that stamps each event: the route's \<open>sessionId\<close> replaces the event's own,
  the timestamp is re-read as a date, and a generated \<open>id\<close> is attached. \<open>gen i\<close> is the
  clock-and-random part generated for the event at index \<open>i\<close>.
\<close>

definition eventsWithTimestamp :: "(nat \<Rightarrow> string) \<Rightarrow> string \<Rightarrow> DetectionEvent list \<Rightarrow> DetectionEvent list" where
  "eventsWithTimestamp gen sid evs =
     map (\<lambda>(i, event). event\<lparr>event_sessionId := sid, timestamp := timestamp event,
                              event_id := Some (sid @ ''_'' @ gen i)\<rparr>)
         (enumerate 0 evs)"

text \<open>The body of the \<open>forEach\<close>: a \<open>switch\<close> with four cases and no default.\<close>

definition count_event :: "DetectionEvent \<Rightarrow> eventCounts \<Rightarrow> eventCounts" where
  "count_event event c =
     (if eventType event = ''looking_away'' then c\<lparr>lookingAwayCount := lookingAwayCount c + 1\<rparr>
      else if eventType event = ''no_face'' then c\<lparr>noFaceCount := noFaceCount c + 1\<rparr>
      else if eventType event = ''multiple_faces'' then c\<lparr>multipleFaceCount := multipleFaceCount c + 1\<rparr>
      else if eventType event = ''unauthorized_object''
        then c\<lparr>unauthorizedObjectCount := unauthorizedObjectCount c + 1\<rparr>
      else c)"

definition zero_counts :: eventCounts where
  "zero_counts = \<lparr> lookingAwayCount = 0, noFaceCount = 0, multipleFaceCount = 0,
                   unauthorizedObjectCount = 0 \<rparr>"

definition batch_counts :: "DetectionEvent list \<Rightarrow> eventCounts" where
  "batch_counts evs = fold count_event evs zero_counts"

text \<open>The update document: \<open>$inc\<close> of the five counters and \<open>$set\<close> of the score.\<close>

definition apply_increment :: "nat \<Rightarrow> eventCounts \<Rightarrow> int \<Rightarrow> ProctorSession \<Rightarrow> ProctorSession" where
  "apply_increment n c score s =
     s\<lparr> totalEvents := totalEvents s + int n,
        lookingAwayCount := lookingAwayCount s + lookingAwayCount c,
        noFaceCount := noFaceCount s + noFaceCount c,
        multipleFaceCount := multipleFaceCount s + multipleFaceCount c,
        unauthorizedObjectCount := unauthorizedObjectCount s + unauthorizedObjectCount c,
        integrityScore := score \<rparr>"

text \<open>
  The success payload is the pair \<open>(eventsAdded, integrityScore)\<close>. The TypeError of
  a null element is thrown before anything is written and is answered by the \<open>catch\<close>
  branch.
\<close>

definition POST_events :: "(nat \<Rightarrow> string) \<Rightarrow> string \<Rightarrow> body \<Rightarrow> database \<Rightarrow> (nat \<times> int) response \<times> database" where
  "POST_events gen sid request db =
     (case request of
        Not_array \<Rightarrow> (Failure 400 ''Invalid events data'', db)
      | Array elements \<Rightarrow>
          if length elements = 0 then (Failure 400 ''Invalid events data'', db)
          else
            (case event_objects elements of
               None \<Rightarrow> (Failure 500 ''Failed to add events'', db)
             | Some evs \<Rightarrow>
                 let db1 = db\<lparr>events_collection :=
                              insertMany (eventsWithTimestamp gen sid evs) (events_collection db)\<rparr>;
                     eventCounts = batch_counts evs;
                     score = max 0 (baseScore - deductions eventCounts);
                     db2 = db1\<lparr>sessions_collection :=
                              updateOne (\<lambda>s. sessionId s = sid)
                                (apply_increment (length evs) eventCounts score)
                                (sessions_collection db1)\<rparr>
                 in (Success (length evs, score), db2)))"

section \<open>Single session: GET and PATCH /api/sessions/[sessionId]\<close>

definition GET_session :: "string \<Rightarrow> database \<Rightarrow> ProctorSession response \<times> database" where
  "GET_session sid db =
     (case findOne (\<lambda>s. sessionId s = sid) (sessions_collection db) of
        None \<Rightarrow> (Failure 404 ''Session not found'', db)
      | Some session \<Rightarrow> (Success session, db))"

text \<open>
  The request body of PATCH is taken to be a JSON object, a partial session: the list of
  the fields it assigns, in the order of its keys (a later key wins). The route then
  overrides \<open>endTime\<close>: with the date of the body's \<open>endTime\<close> when that is truthy,
  which for an instant in milliseconds means non-zero, and with \<open>undefined\<close> when it is
  absent or falsy. Whether the driver drops an \<open>undefined\<close> field, so that the stored
  \<open>endTime\<close> stays, or stores it as null is its \<open>ignoreUndefined\<close> option, taken as
  a parameter.
\<close>

datatype patch_field =
    Set_sessionId string
  | Set_candidateName string
  | Set_startTime int
  | Set_endTime int
  | Set_duration int
  | Set_totalEvents int
  | Set_lookingAwayCount int
  | Set_noFaceCount int
  | Set_multipleFaceCount int
  | Set_unauthorizedObjectCount int
  | Set_integrityScore int
  | Set_status session_status
  | Set_events "DetectionEvent list"

fun set_field :: "patch_field \<Rightarrow> ProctorSession \<Rightarrow> ProctorSession" where
  "set_field (Set_sessionId v) s = s\<lparr>sessionId := v\<rparr>"
| "set_field (Set_candidateName v) s = s\<lparr>candidateName := v\<rparr>"
| "set_field (Set_startTime v) s = s\<lparr>startTime := v\<rparr>"
| "set_field (Set_endTime v) s = s\<lparr>endTime := Some v\<rparr>"
| "set_field (Set_duration v) s = s\<lparr>duration := v\<rparr>"
| "set_field (Set_totalEvents v) s = s\<lparr>totalEvents := v\<rparr>"
| "set_field (Set_lookingAwayCount v) s = s\<lparr>lookingAwayCount := v\<rparr>"
| "set_field (Set_noFaceCount v) s = s\<lparr>noFaceCount := v\<rparr>"
| "set_field (Set_multipleFaceCount v) s = s\<lparr>multipleFaceCount := v\<rparr>"
| "set_field (Set_unauthorizedObjectCount v) s = s\<lparr>unauthorizedObjectCount := v\<rparr>"
| "set_field (Set_integrityScore v) s = s\<lparr>integrityScore := v\<rparr>"
| "set_field (Set_status v) s = s\<lparr>status := v\<rparr>"
| "set_field (Set_events v) s = s\<lparr>events := v\<rparr>"

text \<open>\<open>updates.endTime\<close>: the value of the last \<open>endTime\<close> key, if there is one.\<close>

fun read_endTime :: "patch_field \<Rightarrow> int option \<Rightarrow> int option" where
  "read_endTime (Set_endTime v) found = Some v"
| "read_endTime u found = found"

definition updates_endTime :: "patch_field list \<Rightarrow> int option" where
  "updates_endTime updates = fold read_endTime updates None"

definition truthy :: "int option \<Rightarrow> bool" where
  "truthy v = (case v of None \<Rightarrow> False | Some t \<Rightarrow> t \<noteq> 0)"

definition set_fields :: "bool \<Rightarrow> patch_field list \<Rightarrow> ProctorSession \<Rightarrow> ProctorSession" where
  "set_fields ignoreUndefined updates s =
     (let s' = fold set_field updates s
      in if truthy (updates_endTime updates) then s'\<lparr>endTime := updates_endTime updates\<rparr>
         else if ignoreUndefined then s'\<lparr>endTime := endTime s\<rparr>
         else s'\<lparr>endTime := None\<rparr>)"

definition PATCH_session :: "bool \<Rightarrow> string \<Rightarrow> patch_field list \<Rightarrow> database \<Rightarrow> unit response \<times> database" where
  "PATCH_session ignoreUndefined sid updates db =
     (let docs = sessions_collection db;
          db' = db\<lparr>sessions_collection :=
                     updateOne (\<lambda>s. sessionId s = sid) (set_fields ignoreUndefined updates) docs\<rparr>
      in if matchedCount (\<lambda>s. sessionId s = sid) docs = 0
         then (Failure 404 ''Session not found'', db')
         else (Success (), db'))"

section \<open>Vocabulary of the properties\<close>

text \<open>The closed taxonomy: the four tags the \<open>switch\<close> of the events route knows.\<close>

definition taxonomy :: "string list" where
  "taxonomy = [''looking_away'', ''no_face'', ''multiple_faces'', ''unauthorized_object'']"

text \<open>The per-category counters of a stored session, as one value.\<close>

definition counters :: "ProctorSession \<Rightarrow> eventCounts" where
  "counters s =
     \<lparr> lookingAwayCount = lookingAwayCount s, noFaceCount = noFaceCount s,
       multipleFaceCount = multipleFaceCount s,
       unauthorizedObjectCount = unauthorizedObjectCount s \<rparr>"

definition add_counts :: "eventCounts \<Rightarrow> eventCounts \<Rightarrow> eventCounts" where
  "add_counts a b =
     \<lparr> lookingAwayCount = lookingAwayCount a + lookingAwayCount b,
       noFaceCount = noFaceCount a + noFaceCount b,
       multipleFaceCount = multipleFaceCount a + multipleFaceCount b,
       unauthorizedObjectCount = unauthorizedObjectCount a + unauthorizedObjectCount b \<rparr>"

text \<open>The stored session a request for \<open>sid\<close> is answered from.\<close>

definition session_of :: "string \<Rightarrow> database \<Rightarrow> ProctorSession option" where
  "session_of sid db = findOne (\<lambda>s. sessionId s = sid) (sessions_collection db)"

text \<open>The \<open>eventsAdded\<close> of a success response.\<close>

fun eventsAdded :: "(nat \<times> int) response \<Rightarrow> nat option" where
  "eventsAdded (Success (n, score)) = Some n"
| "eventsAdded (Failure code msg) = None"

text \<open>The events route run on a store, keeping the store only.\<close>

definition submitEvents :: "(nat \<Rightarrow> string) \<Rightarrow> string \<Rightarrow> DetectionEvent list \<Rightarrow> database \<Rightarrow> database" where
  "submitEvents gen sid evs db = snd (POST_events gen sid (Array (map Event_object evs)) db)"

text \<open>A concrete scenario: one session, for candidate Alice, and sample events.\<close>

definition alice :: ProctorSession where
  "alice = new_session ''session_1_abc'' ''Alice'' 1000"

definition alice_db :: database where
  "alice_db = \<lparr> sessions_collection = [alice], events_collection = [] \<rparr>"

definition sample_event :: "string \<Rightarrow> real \<Rightarrow> DetectionEvent" where
  "sample_event tag conf =
     \<lparr> event_id = None, event_sessionId = ''session_1_abc'', eventType = tag,
       confidence = conf, timestamp = 2000, details = [] \<rparr>"

definition sample_gen :: "string \<Rightarrow> nat \<Rightarrow> string" where
  "sample_gen now i = now @ ''_k7''"



section \<open>Store lemmas\<close>

lemma updateOne_no_match:
  "find p docs = None \<Longrightarrow> updateOne p f docs = docs"
  by (induction docs) (auto split: if_splits)

lemma find_updateOne:
  "(\<And>d. p d \<Longrightarrow> p (f d)) \<Longrightarrow> find p (updateOne p f docs) = map_option f (find p docs)"
  by (induction docs) auto

section \<open>Lemmas about the events route\<close>

lemma event_objects_map [simp]: "event_objects (map Event_object evs) = Some evs"
  by (induction evs) (simp_all add: event_objects_def)


lemma add_counts_count_event:
  "add_counts c (count_event e d) = count_event e (add_counts c d)"
  by (simp add: count_event_def add_counts_def)

lemma add_counts_fold:
  "add_counts c (fold count_event evs d) = fold count_event evs (add_counts c d)"
  by (induction evs arbitrary: d) (simp_all add: add_counts_count_event)

lemma add_counts_zero [simp]: "add_counts c zero_counts = c"
  by (simp add: add_counts_def zero_counts_def)

lemma counters_apply_increment:
  "counters (apply_increment n c score s) = add_counts (counters s) c"
  by (simp add: counters_def apply_increment_def add_counts_def)

lemma counters_after_batch:
  "counters (apply_increment n (batch_counts evs) score s) = fold count_event evs (counters s)"
  by (simp add: counters_apply_increment batch_counts_def add_counts_fold)

lemma sessionId_apply_increment [simp]:
  "sessionId (apply_increment n c score s) = sessionId s"
  by (simp add: apply_increment_def)

lemma session_of_submitEvents:
  "evs \<noteq> [] \<Longrightarrow> session_of sid (submitEvents gen sid evs db) =
     map_option (apply_increment (length evs) (batch_counts evs)
        (calculateIntegrityScore (batch_counts evs))) (session_of sid db)"
  by (simp add: session_of_def submitEvents_def POST_events_def findOne_def Let_def
      find_updateOne calculateIntegrityScore_def)

lemma events_submitEvents:
  "evs \<noteq> [] \<Longrightarrow> events_collection (submitEvents gen sid evs db) =
     events_collection db @ eventsWithTimestamp gen sid evs"
  by (simp add: submitEvents_def POST_events_def Let_def insertMany_def)

lemma response_POST_events:
  "evs \<noteq> [] \<Longrightarrow> fst (POST_events gen sid (Array (map Event_object evs)) db) =
     Success (length evs, calculateIntegrityScore (batch_counts evs))"
  by (simp add: POST_events_def Let_def calculateIntegrityScore_def)

lemma add_counts_assoc: "add_counts (add_counts a b) c = add_counts a (add_counts b c)"
  by (simp add: add_counts_def)

lemma add_counts_commute: "add_counts a b = add_counts b a"
  by (simp add: add_counts_def)

lemma totalEvents_apply_increment [simp]:
  "totalEvents (apply_increment n c score s) = totalEvents s + int n"
  by (simp add: apply_increment_def)

lemma status_apply_increment [simp]:
  "status (apply_increment n c score s) = status s"
  by (simp add: apply_increment_def)

lemma integrityScore_apply_increment [simp]:
  "integrityScore (apply_increment n c score s) = score"
  by (simp add: apply_increment_def)

lemma count_event_outside:
  "eventType e \<notin> set taxonomy \<Longrightarrow> count_event e c = c"
  by (simp add: count_event_def taxonomy_def)




lemma response_POST_events_single:
  "fst (POST_events gen sid (Array [Event_object e]) db) =
     Success (1, calculateIntegrityScore (batch_counts [e]))"
  using response_POST_events [of "[e]" gen sid db] by simp

section \<open>The scenario\<close>

lemma alice_created:
  "POST_sessions ''session_1_abc'' 1000 ''Alice''
     \<lparr> sessions_collection = [], events_collection = [] \<rparr> = (Success ''session_1_abc'', alice_db)"
  by (simp add: POST_sessions_def trim_def whitespace_def insertOne_def alice_db_def alice_def)

lemma alice_found: "session_of ''session_1_abc'' alice_db = Some alice"
  by (simp add: session_of_def alice_db_def alice_def findOne_def new_session_def)

lemma alice_counters: "counters alice = zero_counts"
  by (simp add: counters_def alice_def new_session_def zero_counts_def)

lemma sample_event_type [simp]: "eventType (sample_event tag conf) = tag"
  by (simp add: sample_event_def)

lemma alice_db_events [simp]: "events_collection alice_db = []"
  by (simp add: alice_db_def)


lemma length_eventsWithTimestamp [simp]: "length (eventsWithTimestamp gen sid evs) = length evs"
  by (simp add: eventsWithTimestamp_def)

section \<open>The scoring function\<close>

text \<open>
  C6. The score is \<open>max(0, 100 - (2*lookingAway + 3*noFace + 10*multipleFaces +
  15*unauthorizedObjects))\<close>: this is the function of the monitor component, and the
  events route answers a batch with that function of the batch's counts. A session
  whose counters are all zero has, after one accepted \<open>looking_away\<close> event, the stored
  score 98, which is also the score of its counters and the score in the response.
\<close>

theorem score_formula_and_first_event:
  "calculateIntegrityScore c =
     max 0 (100 - (2 * lookingAwayCount c + 3 * noFaceCount c +
                   10 * multipleFaceCount c + 15 * unauthorizedObjectCount c))
   \<and> (evs \<noteq> [] \<longrightarrow> fst (POST_events gen sid (Array (map Event_object evs)) db) =
          Success (length evs, calculateIntegrityScore (batch_counts evs)))
   \<and> (session_of sid db = Some s \<and> counters s = zero_counts \<and> eventType e = ''looking_away'' \<longrightarrow>
        fst (POST_events gen sid (Array [Event_object e]) db) = Success (1, 98) \<and>
        map_option integrityScore (session_of sid (submitEvents gen sid [e] db)) = Some 98 \<and>
        map_option calculateIntegrityScore (session_of sid (submitEvents gen sid [e] db)) = Some 98)"
proof (intro conjI impI)
  show "calculateIntegrityScore c =
     max 0 (100 - (2 * lookingAwayCount c + 3 * noFaceCount c +
                   10 * multipleFaceCount c + 15 * unauthorizedObjectCount c))"
    by (simp add: calculateIntegrityScore_def baseScore_def deductions_def)
next
  assume "evs \<noteq> []"
  then show "fst (POST_events gen sid (Array (map Event_object evs)) db) =
          Success (length evs, calculateIntegrityScore (batch_counts evs))"
    by (rule response_POST_events)
next
  assume h: "session_of sid db = Some s \<and> counters s = zero_counts \<and> eventType e = ''looking_away''"
  have bc: "batch_counts [e] = zero_counts\<lparr>lookingAwayCount := 1\<rparr>"
    using h by (simp add: batch_counts_def count_event_def zero_counts_def)
  have sc: "calculateIntegrityScore (batch_counts [e]) = 98"
    by (simp add: bc calculateIntegrityScore_def baseScore_def deductions_def zero_counts_def)
  show "fst (POST_events gen sid (Array [Event_object e]) db) = Success (1, 98)"
    by (simp add: response_POST_events_single sc)
  show "map_option integrityScore (session_of sid (submitEvents gen sid [e] db)) = Some 98"
    using h by (simp add: session_of_submitEvents sc)
  have "counters (apply_increment 1 (batch_counts [e]) 98 s) = zero_counts\<lparr>lookingAwayCount := 1\<rparr>"
    using h by (simp add: counters_after_batch count_event_def zero_counts_def)
  then have "calculateIntegrityScore (apply_increment 1 (batch_counts [e]) 98 s) = 98"
    by (simp add: calculateIntegrityScore_def baseScore_def deductions_def counters_def zero_counts_def)
  then show "map_option calculateIntegrityScore (session_of sid (submitEvents gen sid [e] db)) = Some 98"
    using h by (simp add: session_of_submitEvents sc)
qed

theorem score_formula_and_first_event_witness:
  "[sample_event ''looking_away'' 0.9] \<noteq> []
   \<and> session_of ''session_1_abc'' alice_db = Some alice \<and> counters alice = zero_counts
   \<and> eventType (sample_event ''looking_away'' 0.9) = ''looking_away''
   \<and> fst (POST_events (sample_gen ''3000'') ''session_1_abc''
            (Array [Event_object (sample_event ''looking_away'' 0.9)]) alice_db) = Success (1, 98)
   \<and> map_option integrityScore (session_of ''session_1_abc''
        (submitEvents (sample_gen ''3000'') ''session_1_abc''
           [sample_event ''looking_away'' 0.9] alice_db)) = Some 98"
proof -
  have h: "session_of ''session_1_abc'' alice_db = Some alice \<and> counters alice = zero_counts
      \<and> eventType (sample_event ''looking_away'' 0.9) = ''looking_away''"
    by (simp add: alice_found alice_counters)
  from h score_formula_and_first_event [of alice "[sample_event ''looking_away'' 0.9]"
      "sample_gen ''3000''" "''session_1_abc''" alice_db alice "sample_event ''looking_away'' 0.9"]
  have "fst (POST_events (sample_gen ''3000'') ''session_1_abc''
            (Array [Event_object (sample_event ''looking_away'' 0.9)]) alice_db) = Success (1, 98)
   \<and> map_option integrityScore (session_of ''session_1_abc''
        (submitEvents (sample_gen ''3000'') ''session_1_abc''
           [sample_event ''looking_away'' 0.9] alice_db)) = Some 98"
    by blast
  with h show ?thesis by simp
qed

text \<open>
  C8. For non-negative counters the score lies between 0 and 100, and it does not grow
  when any single counter grows while the others stay fixed. It is a function of the
  four counters alone: two records that agree on them have the same score.
\<close>

theorem score_bounded_monotone:
  assumes "0 \<le> lookingAwayCount c" and "0 \<le> noFaceCount c"
    and "0 \<le> multipleFaceCount c" and "0 \<le> unauthorizedObjectCount c" and "0 \<le> k"
  shows "0 \<le> calculateIntegrityScore c \<and> calculateIntegrityScore c \<le> 100
    \<and> calculateIntegrityScore (c\<lparr>lookingAwayCount := lookingAwayCount c + k\<rparr>) \<le> calculateIntegrityScore c
    \<and> calculateIntegrityScore (c\<lparr>noFaceCount := noFaceCount c + k\<rparr>) \<le> calculateIntegrityScore c
    \<and> calculateIntegrityScore (c\<lparr>multipleFaceCount := multipleFaceCount c + k\<rparr>) \<le> calculateIntegrityScore c
    \<and> calculateIntegrityScore (c\<lparr>unauthorizedObjectCount := unauthorizedObjectCount c + k\<rparr>) \<le> calculateIntegrityScore c
    \<and> (lookingAwayCount c' = lookingAwayCount c \<and> noFaceCount c' = noFaceCount c \<and>
        multipleFaceCount c' = multipleFaceCount c \<and>
        unauthorizedObjectCount c' = unauthorizedObjectCount c
        \<longrightarrow> calculateIntegrityScore c' = calculateIntegrityScore c)"
  using assms by (auto simp: calculateIntegrityScore_def baseScore_def deductions_def)

theorem score_bounded_monotone_witness:
  "0 \<le> calculateIntegrityScore (counters alice\<lparr>noFaceCount := 7\<rparr>)
   \<and> calculateIntegrityScore (counters alice\<lparr>noFaceCount := 7\<rparr>) \<le> 100
   \<and> calculateIntegrityScore (counters alice\<lparr>noFaceCount := 7, multipleFaceCount := 3\<rparr>)
       \<le> calculateIntegrityScore (counters alice\<lparr>noFaceCount := 7\<rparr>)
   \<and> calculateIntegrityScore (alice\<lparr>noFaceCount := 7\<rparr>)
       = calculateIntegrityScore (counters alice\<lparr>noFaceCount := 7\<rparr>)"
  using score_bounded_monotone [of "counters alice\<lparr>noFaceCount := 7\<rparr>" 3 "alice\<lparr>noFaceCount := 7\<rparr>"]
  by (simp add: counters_def alice_def new_session_def)

section \<open>Additive counters\<close>

text \<open>
  C7. Two accepted batches for a stored session, applied in either order, leave the
  session's counters equal to the prior counters plus the counts of both batches, and
  \<open>totalEvents\<close> equal to the prior value plus both batch lengths: the update adds to
  the counters and never overwrites them.
\<close>

theorem batches_commute_on_counters:
  assumes "session_of sid db = Some s" and "b1 \<noteq> []" and "b2 \<noteq> []"
  shows "map_option counters (session_of sid (submitEvents g2 sid b2 (submitEvents g1 sid b1 db)))
           = Some (add_counts (counters s) (add_counts (batch_counts b1) (batch_counts b2)))
    \<and> map_option counters (session_of sid (submitEvents h1 sid b1 (submitEvents h2 sid b2 db)))
           = Some (add_counts (counters s) (add_counts (batch_counts b1) (batch_counts b2)))
    \<and> map_option totalEvents (session_of sid (submitEvents g2 sid b2 (submitEvents g1 sid b1 db)))
           = Some (totalEvents s + int (length b1) + int (length b2))
    \<and> map_option totalEvents (session_of sid (submitEvents h1 sid b1 (submitEvents h2 sid b2 db)))
           = Some (totalEvents s + int (length b1) + int (length b2))"
  using assms
  by (simp add: session_of_submitEvents counters_apply_increment add_counts_assoc
      add_counts_commute [of "batch_counts b2" "batch_counts b1"])

theorem batches_commute_on_counters_witness:
  "session_of ''session_1_abc'' alice_db = Some alice
   \<and> [sample_event ''looking_away'' 0.9] \<noteq> []
   \<and> [sample_event ''no_face'' 0.8, sample_event ''no_face'' 0.7,
       sample_event ''multiple_faces'' 0.6] \<noteq> []
   \<and> map_option counters (session_of ''session_1_abc''
        (submitEvents (sample_gen ''4000'') ''session_1_abc''
           [sample_event ''no_face'' 0.8, sample_event ''no_face'' 0.7,
            sample_event ''multiple_faces'' 0.6]
           (submitEvents (sample_gen ''3000'') ''session_1_abc''
              [sample_event ''looking_away'' 0.9] alice_db)))
       = Some \<lparr> lookingAwayCount = 1, noFaceCount = 2, multipleFaceCount = 1,
                unauthorizedObjectCount = 0 \<rparr>
   \<and> map_option counters (session_of ''session_1_abc''
        (submitEvents (sample_gen ''4000'') ''session_1_abc''
           [sample_event ''looking_away'' 0.9]
           (submitEvents (sample_gen ''3000'') ''session_1_abc''
              [sample_event ''no_face'' 0.8, sample_event ''no_face'' 0.7,
               sample_event ''multiple_faces'' 0.6] alice_db)))
       = Some \<lparr> lookingAwayCount = 1, noFaceCount = 2, multipleFaceCount = 1,
                unauthorizedObjectCount = 0 \<rparr>"
  using batches_commute_on_counters [of "''session_1_abc''" alice_db alice
      "[sample_event ''looking_away'' 0.9]"
      "[sample_event ''no_face'' 0.8, sample_event ''no_face'' 0.7,
        sample_event ''multiple_faces'' 0.6]"
      "sample_gen ''4000''" "sample_gen ''3000''" "sample_gen ''4000''" "sample_gen ''3000''"]
    alice_found
  by (simp add: alice_counters batch_counts_def count_event_def add_counts_def zero_counts_def)

section \<open>Lookup misses\<close>

text \<open>
  C9. When no stored session has the requested \<open>sessionId\<close>, both the GET and the
  PATCH route answer 404 \<open>Session not found\<close> (the spec's SessionNotFound) and leave
  the store exactly as it was: no session is created.
\<close>

theorem unknown_session_not_found:
  assumes "session_of sid db = None"
  shows "GET_session sid db = (Failure 404 ''Session not found'', db)
    \<and> PATCH_session ignoreUndefined sid updates db = (Failure 404 ''Session not found'', db)"
proof -
  from assms have none: "find (\<lambda>s. sessionId s = sid) (sessions_collection db) = None"
    by (simp add: session_of_def findOne_def)
  then have "\<not> list_ex (\<lambda>s. sessionId s = sid) (sessions_collection db)"
    by (simp add: find_None_iff list_ex_iff)
  then have "matchedCount (\<lambda>s. sessionId s = sid) (sessions_collection db) = 0"
    by (simp add: matchedCount_def)
  moreover have "updateOne (\<lambda>s. sessionId s = sid) (set_fields ignoreUndefined updates)
      (sessions_collection db) = sessions_collection db"
    using none by (rule updateOne_no_match)
  ultimately show ?thesis
    using none by (simp add: GET_session_def PATCH_session_def findOne_def)
qed

theorem unknown_session_not_found_witness:
  "session_of ''session_9_typo'' alice_db = None
   \<and> GET_session ''session_9_typo'' alice_db = (Failure 404 ''Session not found'', alice_db)
   \<and> PATCH_session False ''session_9_typo'' [Set_status Completed, Set_endTime 9000] alice_db
       = (Failure 404 ''Session not found'', alice_db)"
proof -
  have miss: "session_of ''session_9_typo'' alice_db = None"
    by (simp add: session_of_def findOne_def alice_db_def alice_def new_session_def)
  show ?thesis
    using miss unknown_session_not_found [OF miss, of False "[Set_status Completed, Set_endTime 9000]"]
    by simp
qed

section \<open>Batches of unknown event types\<close>



section \<open>The stored score against the cumulative counters\<close>

text \<open>
  C1. The claim is that after every accepted batch the stored \<open>integrityScore\<close> is the
  score of the session's cumulative counters. The events route adds the batch's counts to
  the stored counters but stores the score of the batch's own counts. Evaluated on a fresh
  session and two batches of one \<open>looking_away\<close> event each: the stored counters are
  \<open>(2, 0, 0, 0)\<close>, whose score is 96, and the stored \<open>integrityScore\<close> is 98.
\<close>

theorem stored_score_is_of_last_batch_only:
  "map_option counters (session_of ''session_1_abc''
      (submitEvents (sample_gen ''4000'') ''session_1_abc'' [sample_event ''looking_away'' 0.8]
        (submitEvents (sample_gen ''3000'') ''session_1_abc'' [sample_event ''looking_away'' 0.9] alice_db)))
     = Some \<lparr> lookingAwayCount = 2, noFaceCount = 0, multipleFaceCount = 0, unauthorizedObjectCount = 0 \<rparr>
   \<and> map_option calculateIntegrityScore (session_of ''session_1_abc''
      (submitEvents (sample_gen ''4000'') ''session_1_abc'' [sample_event ''looking_away'' 0.8]
        (submitEvents (sample_gen ''3000'') ''session_1_abc'' [sample_event ''looking_away'' 0.9] alice_db)))
     = Some 96
   \<and> map_option integrityScore (session_of ''session_1_abc''
      (submitEvents (sample_gen ''4000'') ''session_1_abc'' [sample_event ''looking_away'' 0.8]
        (submitEvents (sample_gen ''3000'') ''session_1_abc'' [sample_event ''looking_away'' 0.9] alice_db)))
     = Some 98"
  by (simp add: session_of_submitEvents alice_found counters_def apply_increment_def
      batch_counts_def count_event_def zero_counts_def calculateIntegrityScore_def
      baseScore_def deductions_def alice_def new_session_def)

section \<open>Resubmitted events\<close>

text \<open>
  C2, as stated, fails: the same event (same session, timestamp, type and confidence)
  submitted twice to a fresh session leaves \<open>lookingAwayCount\<close> and \<open>totalEvents\<close> at 2
  and two entries in the events collection.
\<close>

theorem resubmitted_event_counted_twice:
  "map_option lookingAwayCount (session_of ''session_1_abc''
      (submitEvents (sample_gen ''4000'') ''session_1_abc'' [sample_event ''looking_away'' 0.9]
        (submitEvents (sample_gen ''3000'') ''session_1_abc'' [sample_event ''looking_away'' 0.9] alice_db)))
     = Some 2
   \<and> map_option totalEvents (session_of ''session_1_abc''
      (submitEvents (sample_gen ''4000'') ''session_1_abc'' [sample_event ''looking_away'' 0.9]
        (submitEvents (sample_gen ''3000'') ''session_1_abc'' [sample_event ''looking_away'' 0.9] alice_db)))
     = Some 2
   \<and> length (events_collection
      (submitEvents (sample_gen ''4000'') ''session_1_abc'' [sample_event ''looking_away'' 0.9]
        (submitEvents (sample_gen ''3000'') ''session_1_abc'' [sample_event ''looking_away'' 0.9] alice_db)))
     = 2"
  by (simp add: session_of_submitEvents events_submitEvents alice_found apply_increment_def
      batch_counts_def count_event_def zero_counts_def alice_def new_session_def)

text \<open>
  C2, amended. The route keeps no record of event identities: an event submitted again
  for a stored session is ingested again. After both submissions the counters are the
  prior counters with the event counted twice, \<open>totalEvents\<close> has grown by 2, and the
  events collection has gained two stamped copies of the event.
\<close>

theorem resubmitted_event_counted_again:
  assumes "session_of sid db = Some s"
  shows "map_option counters (session_of sid (submitEvents g2 sid [e] (submitEvents g1 sid [e] db)))
           = Some (count_event e (count_event e (counters s)))
    \<and> map_option totalEvents (session_of sid (submitEvents g2 sid [e] (submitEvents g1 sid [e] db)))
           = Some (totalEvents s + 2)
    \<and> events_collection (submitEvents g2 sid [e] (submitEvents g1 sid [e] db))
           = events_collection db @ eventsWithTimestamp g1 sid [e] @ eventsWithTimestamp g2 sid [e]"
  using assms
  by (simp add: session_of_submitEvents events_submitEvents counters_after_batch)

theorem resubmitted_event_counted_again_witness:
  "session_of ''session_1_abc'' alice_db = Some alice
   \<and> map_option counters (session_of ''session_1_abc''
      (submitEvents (sample_gen ''4000'') ''session_1_abc'' [sample_event ''no_face'' 0.9]
        (submitEvents (sample_gen ''3000'') ''session_1_abc'' [sample_event ''no_face'' 0.9] alice_db)))
     = Some \<lparr> lookingAwayCount = 0, noFaceCount = 2, multipleFaceCount = 0, unauthorizedObjectCount = 0 \<rparr>"
  using resubmitted_event_counted_again [OF alice_found, of "sample_gen ''4000''"
      "sample_event ''no_face'' 0.9" "sample_gen ''3000''"]
    alice_found
  by (simp add: alice_counters count_event_def zero_counts_def)

section \<open>Events after the end of a session\<close>




section \<open>Validation of submitted events\<close>

text \<open>
  C4, as stated, fails: an event of type \<open>talking\<close>, which is outside the taxonomy, is
  answered with success, stored in the events collection and counted in \<open>totalEvents\<close>.
\<close>

theorem talking_event_accepted:
  "''talking'' \<notin> set taxonomy
   \<and> POST_events (sample_gen ''3000'') ''session_1_abc'' (Array [Event_object (sample_event ''talking'' 0.9)]) alice_db
      = (Success (1, 100),
         \<lparr> sessions_collection = [alice\<lparr>totalEvents := 1\<rparr>],
           events_collection = [sample_event ''talking'' 0.9\<lparr>event_id := Some ''session_1_abc_3000_k7''\<rparr>] \<rparr>)"
  by (simp add: taxonomy_def POST_events_def alice_db_def alice_def new_session_def batch_counts_def
      count_event_def zero_counts_def baseScore_def deductions_def apply_increment_def insertMany_def
      eventsWithTimestamp_def sample_event_def sample_gen_def Let_def event_objects_def)

text \<open>
  C4, amended. The route has no check of the event type. An event whose type is outside
  the taxonomy is accepted: the response reports one event added, the event is appended to
  the events collection with its type as submitted, \<open>totalEvents\<close> grows by one, and the
  four per-category counters stay as they were.
\<close>

theorem unknown_event_type_accepted:
  assumes "eventType e \<notin> set taxonomy"
  shows "eventsAdded (fst (POST_events gen sid (Array [Event_object e]) db)) = Some 1
    \<and> events_collection (submitEvents gen sid [e] db)
        = events_collection db @ eventsWithTimestamp gen sid [e]
    \<and> map eventType (eventsWithTimestamp gen sid [e]) = [eventType e]
    \<and> map_option counters (session_of sid (submitEvents gen sid [e] db))
        = map_option counters (session_of sid db)
    \<and> map_option totalEvents (session_of sid (submitEvents gen sid [e] db))
        = map_option (\<lambda>s. totalEvents s + 1) (session_of sid db)"
  using assms
  by (simp add: response_POST_events_single events_submitEvents session_of_submitEvents
      eventsWithTimestamp_def option.map_comp comp_def counters_after_batch count_event_outside)

theorem unknown_event_type_accepted_witness:
  "eventType (sample_event ''talking'' 0.9) \<notin> set taxonomy
   \<and> eventsAdded (fst (POST_events (sample_gen ''3000'') ''session_1_abc''
        (Array [Event_object (sample_event ''talking'' 0.9)]) alice_db)) = Some 1
   \<and> map_option counters (session_of ''session_1_abc''
        (submitEvents (sample_gen ''3000'') ''session_1_abc'' [sample_event ''talking'' 0.9] alice_db))
       = Some zero_counts"
proof -
  have out: "eventType (sample_event ''talking'' 0.9) \<notin> set taxonomy"
    by (simp add: taxonomy_def)
  show ?thesis
    using out unknown_event_type_accepted [OF out, of "sample_gen ''3000''" "''session_1_abc''" alice_db]
    by (simp add: alice_found alice_counters)
qed




end
